theory Spec2Isabelle
  imports Main "HOL-Library.AList" "HOL-Library.Sublist"
begin

section \<open>Values, dictionaries and exceptions\<close>

text \<open>
  The request body after \<^verbatim>\<open>json.loads\<close>, the attribute values of an item and the
  argument of \<^verbatim>\<open>json.dumps\<close> are Python values built from JSON. A Python \<^verbatim>\<open>dict\<close>
  is an association list in insertion order; \<^verbatim>\<open>d[k] = v\<close> is \<^const>\<open>AList.update\<close>
  (the value is replaced in place when the key is there, appended otherwise) and
  \<^verbatim>\<open>d.get(k)\<close> is \<^const>\<open>map_of\<close>. Floating-point numbers are left out of the
  value type.
\<close>

datatype json =
    JNull
  | JBool bool
  | JInt int
  | JStr string
  | JArr "json list"
  | JObj "(string \<times> json) list"

type_synonym dict = "(string \<times> json) list"

datatype exn =
    ClientError | NameError | KeyError | JSONDecodeError | RecursionError | ValueError
  | OtherException

text \<open>A response is the dictionary every branch of the source returns; \<open>body\<close> holds
  the value handed to \<^verbatim>\<open>json.dumps\<close>.\<close>

record response =
  statusCode :: int
  headers :: "(string \<times> string) list"
  body :: json

definition json_response :: "int \<Rightarrow> json \<Rightarrow> response" where
  "json_response code b =
     \<lparr>statusCode = code,
      headers = [(''Content-Type'', ''application/json''), (''Access-Control-Allow-Origin'', ''*'')],
      body = b\<rparr>"

definition error_body :: "string \<Rightarrow> json" where
  "error_body msg = JObj [(''error'', JStr msg)]"

section \<open>The collaborators: table, metrics, clock, identifiers\<close>

datatype call =
    GetItem string
  | PutItem dict
  | UpdateItem string "(string \<times> string) list" dict
  | DeleteItem string

record metric_datum =
  metric_name :: string
  metric_value :: int
  metric_unit :: string
  dimension_function_name :: string

text \<open>The world a request runs in: the contents of the table (keyed by the value of the
  \<^verbatim>\<open>itemId\<close> attribute), the storage calls made so far, and the metric data published
  so far.\<close>

record world =
  table :: "json \<rightharpoonup> dict"
  calls :: "call list"
  metrics :: "metric_datum list"

text \<open>What one invocation reads from outside: the string \<^verbatim>\<open>str(uuid.uuid4())\<close>
  returns, the value of \<^verbatim>\<open>int(time.time())\<close>, the outcome of each storage call
  (\<open>None\<close>: the call succeeds; \<open>Some x\<close>: it raises \<open>x\<close>), whether CloudWatch fails,
  the duration measured around the simulated processing (a float in the source, kept
  here as a whole number of milliseconds), the function name of the Lambda context, and
  \<^verbatim>\<open>json.loads\<close>, which returns a value (\<open>Inr\<close>) or raises (\<open>Inl\<close>):
  \<^verbatim>\<open>JSONDecodeError\<close> on text that is not JSON, and other exceptions on text it gives up
  on, such as \<^verbatim>\<open>RecursionError\<close> on very deep nesting.\<close>

record env =
  uuid4 :: string
  time_now :: int
  get_fault :: "exn option"
  put_fault :: "exn option"
  update_fault :: "exn option"
  delete_fault :: "exn option"
  cloudwatch_fault :: bool
  processing_time :: int
  function_name :: string
  loads :: "string \<Rightarrow> exn + json"

text \<open>Modelled from the spec: the storage collaborator (the table behind
  \<^verbatim>\<open>dynamodb.Table(table_name)\<close>, a service outside the repository that the
  handlers of \<^verbatim>\<open>main.py\<close> call), which the spec describes as
  \<^verbatim>\<open>get(key) -> item|absent\<close>, \<^verbatim>\<open>put(item) -> success|error\<close>,
  \<^verbatim>\<open>update(key, attributeMerge) -> success|error\<close>, \<^verbatim>\<open>delete(key) -> success|error\<close>,
  keyed by \<^verbatim>\<open>itemId\<close>. A put replaces whatever is stored under the item's key; an
  update applies its SET clauses from left to right to the stored item (to a new item
  holding only the key when there is none); a delete removes the key. Whether the backend
  accepts a call is the outcome given by the environment.\<close>

definition get_item :: "env \<Rightarrow> string \<Rightarrow> world \<Rightarrow> (exn + dict option) \<times> world" where
  "get_item e key w =
     (let w1 = w\<lparr>calls := calls w @ [GetItem key]\<rparr> in
      case get_fault e of
        Some x \<Rightarrow> (Inl x, w1)
      | None \<Rightarrow> (Inr (table w (JStr key)), w1))"

definition put_item :: "env \<Rightarrow> dict \<Rightarrow> world \<Rightarrow> (exn + unit) \<times> world" where
  "put_item e item w =
     (let w1 = w\<lparr>calls := calls w @ [PutItem item]\<rparr> in
      case put_fault e of
        Some x \<Rightarrow> (Inl x, w1)
      | None \<Rightarrow>
          (case map_of item ''itemId'' of
             None \<Rightarrow> (Inl ClientError, w1)
           | Some k \<Rightarrow> (Inr (), w1\<lparr>table := (table w1)(k \<mapsto> item)\<rparr>)))"

fun set_clause :: "dict \<Rightarrow> string \<times> string \<Rightarrow> dict \<Rightarrow> dict" where
  "set_clause vals (attr, placeholder) it =
     (case map_of vals placeholder of
        Some v \<Rightarrow> AList.update attr v it
      | None \<Rightarrow> it)"

definition apply_set :: "(string \<times> string) list \<Rightarrow> dict \<Rightarrow> dict \<Rightarrow> dict" where
  "apply_set clauses vals item = fold (set_clause vals) clauses item"

definition update_item ::
    "env \<Rightarrow> string \<Rightarrow> (string \<times> string) list \<Rightarrow> dict \<Rightarrow> world \<Rightarrow> (exn + unit) \<times> world" where
  "update_item e key clauses vals w =
     (let w1 = w\<lparr>calls := calls w @ [UpdateItem key clauses vals]\<rparr> in
      case update_fault e of
        Some x \<Rightarrow> (Inl x, w1)
      | None \<Rightarrow>
          (let old = (case table w1 (JStr key) of
                        Some it \<Rightarrow> it
                      | None \<Rightarrow> [(''itemId'', JStr key)])
           in (Inr (), w1\<lparr>table := (table w1)(JStr key \<mapsto> apply_set clauses vals old)\<rparr>)))"

definition delete_item :: "env \<Rightarrow> string \<Rightarrow> world \<Rightarrow> (exn + unit) \<times> world" where
  "delete_item e key w =
     (let w1 = w\<lparr>calls := calls w @ [DeleteItem key]\<rparr> in
      case delete_fault e of
        Some x \<Rightarrow> (Inl x, w1)
      | None \<Rightarrow> (Inr (), w1\<lparr>table := (table w1)(JStr key := None)\<rparr>))"

text \<open>\<^verbatim>\<open>publish_custom_metrics\<close> catches every exception of the CloudWatch call itself,
  so it always returns.\<close>

definition publish_custom_metrics :: "env \<Rightarrow> string \<Rightarrow> string \<Rightarrow> int \<Rightarrow> world \<Rightarrow> world" where
  "publish_custom_metrics e fname mname val w =
     (if cloudwatch_fault e then w
      else w\<lparr>metrics := metrics w @
             [\<lparr>metric_name = mname,
               metric_value = val,
               metric_unit = (if mname \<noteq> ''ProcessingTime'' then ''Count'' else ''Milliseconds''),
               dimension_function_name = fname\<rparr>]\<rparr>)"

section \<open>Create\<close>

definition required_fields :: "string list" where
  "required_fields = [''name'']"

text \<open>The item literal of \<^verbatim>\<open>handle_create_item\<close> followed by its copy-through loop over
  \<^verbatim>\<open>body.items()\<close>.\<close>

fun copy_field :: "string \<times> json \<Rightarrow> dict \<Rightarrow> dict" where
  "copy_field (key, value) item =
     (if key \<notin> set [''name'', ''description''] then AList.update key value item else item)"

definition new_item :: "string \<Rightarrow> int \<Rightarrow> json \<Rightarrow> dict \<Rightarrow> dict" where
  "new_item item_id timestamp name kvs =
     fold copy_field kvs
          [(''itemId'', JStr item_id),
           (''name'', name),
           (''description'', (case map_of kvs ''description'' of Some d \<Rightarrow> d | None \<Rightarrow> JStr [])),
           (''createdAt'', JInt timestamp),
           (''updatedAt'', JInt timestamp)]"

text \<open>The names bound inside \<^verbatim>\<open>handle_create_item\<close> (its parameters and locals) and at
  module level. The call \<^verbatim>\<open>publish_custom_metrics(context.function_name, ...)\<close> in that
  function evaluates the name \<^verbatim>\<open>context\<close> first; it is a parameter of \<^verbatim>\<open>handler\<close>
  only, and no builtin has that name.\<close>

definition handle_create_item_names :: "string list" where
  "handle_create_item_names =
     [''body'', ''request_id'', ''validation_error'', ''required_fields'', ''field'',
      ''item_id'', ''timestamp'', ''item'', ''key'', ''value'', ''success_log'',
      ''start_time'', ''processing_time'', ''e'', ''error_log'',
      ''json'', ''boto3'', ''uuid'', ''os'', ''time'', ''logging'', ''datetime'',
      ''ClientError'', ''logger'', ''dynamodb'', ''table_name'', ''table'', ''handler'',
      ''handle_create_item'', ''handle_get_item'', ''handle_update_item'',
      ''handle_delete_item'', ''publish_custom_metrics'']"

definition emit_processing_time :: "env \<Rightarrow> world \<Rightarrow> (exn + unit) \<times> world" where
  "emit_processing_time e w =
     (if ''context'' \<in> set handle_create_item_names
      then (Inr (), publish_custom_metrics e (function_name e) ''ProcessingTime'' (processing_time e) w)
      else (Inl NameError, w))"

text \<open>\<^verbatim>\<open>try: ... except: pass\<close>: whatever the statement raises is dropped.\<close>

definition swallow :: "(exn + unit) \<times> world \<Rightarrow> world" where
  "swallow r = snd r"

fun handle_create_item :: "env \<Rightarrow> json \<Rightarrow> world \<Rightarrow> (exn + response) \<times> world" where
  "handle_create_item e (JObj kvs) w =
     (if kvs = [] then
        (Inr (json_response 400 (error_body ''Invalid input: body must be a JSON object'')), w)
      else
        (case find (\<lambda>field. field \<notin> set (map fst kvs)) required_fields of
           Some field \<Rightarrow>
             (Inr (json_response 400 (error_body (''Missing required field: '' @ field))), w)
         | None \<Rightarrow>
             (let item_id = uuid4 e; timestamp = time_now e in
              case map_of kvs ''name'' of
                None \<Rightarrow> (Inl KeyError, w)
              | Some name \<Rightarrow>
                  (case put_item e (new_item item_id timestamp name kvs) w of
                     (Inl x, w1) \<Rightarrow>
                       (if x = ClientError
                        then (Inr (json_response 500 (error_body ''Failed to create item'')), w1)
                        else (Inl x, w1))
                   | (Inr u, w1) \<Rightarrow>
                       (Inr (json_response 201
                               (JObj [(''itemId'', JStr item_id),
                                      (''message'', JStr ''Item created successfully'')])),
                        swallow (emit_processing_time e w1))))))"
| "handle_create_item e b w =
     (Inr (json_response 400 (error_body ''Invalid input: body must be a JSON object'')), w)"

section \<open>Get\<close>

definition handle_get_item :: "env \<Rightarrow> string \<Rightarrow> world \<Rightarrow> (exn + response) \<times> world" where
  "handle_get_item e item_id w =
     (if item_id = [] then (Inr (json_response 400 (error_body ''Item ID is required'')), w)
      else
        (case get_item e item_id w of
           (Inl x, w1) \<Rightarrow>
             (if x = ClientError
              then (Inr (json_response 500 (error_body ''Failed to retrieve item'')), w1)
              else (Inl x, w1))
         | (Inr None, w1) \<Rightarrow> (Inr (json_response 404 (error_body ''Item not found'')), w1)
         | (Inr (Some item), w1) \<Rightarrow> (Inr (json_response 200 (JObj item)), w1)))"

section \<open>Update\<close>

text \<open>The update expression \<^verbatim>\<open>"SET updatedAt = :updated_at, k = :k, ..."\<close> is kept as
  its list of clauses (attribute, placeholder); \<^verbatim>\<open>expression_values\<close> is the dictionary
  from placeholders to values.\<close>

fun add_field ::
    "string \<times> json \<Rightarrow> (string \<times> string) list \<times> dict \<Rightarrow> (string \<times> string) list \<times> dict" where
  "add_field (key, value) (update_expression, expression_values) =
     (if key \<notin> set [''itemId'', ''createdAt'']
      then (update_expression @ [(key, '':'' @ key)],
            AList.update ('':'' @ key) value expression_values)
      else (update_expression, expression_values))"

definition update_request :: "int \<Rightarrow> dict \<Rightarrow> (string \<times> string) list \<times> dict" where
  "update_request timestamp kvs =
     fold add_field kvs
          ([(''updatedAt'', '':updated_at'')], [('':updated_at'', JInt timestamp)])"

fun handle_update_item :: "env \<Rightarrow> string \<Rightarrow> json \<Rightarrow> world \<Rightarrow> (exn + response) \<times> world" where
  "handle_update_item e item_id (JObj kvs) w =
     (if item_id = [] then
        (Inr (json_response 400 (error_body ''Item ID is required for update'')), w)
      else if kvs = [] then
        (Inr (json_response 400 (error_body ''Invalid input: body must be a JSON object'')), w)
      else
        (case get_item e item_id w of
           (Inl x, w1) \<Rightarrow>
             (if x = ClientError
              then (Inr (json_response 500 (error_body ''Failed to update item'')), w1)
              else (Inl x, w1))
         | (Inr None, w1) \<Rightarrow> (Inr (json_response 404 (error_body ''Item not found'')), w1)
         | (Inr (Some existing), w1) \<Rightarrow>
             (case update_request (time_now e) kvs of
                (update_expression, expression_values) \<Rightarrow>
                  (case update_item e item_id update_expression expression_values w1 of
                     (Inl x, w2) \<Rightarrow>
                       (if x = ClientError
                        then (Inr (json_response 500 (error_body ''Failed to update item'')), w2)
                        else (Inl x, w2))
                   | (Inr u, w2) \<Rightarrow>
                       (Inr (json_response 200
                               (JObj [(''itemId'', JStr item_id),
                                      (''message'', JStr ''Item updated successfully'')])),
                        w2)))))"
| "handle_update_item e item_id b w =
     (if item_id = [] then
        (Inr (json_response 400 (error_body ''Item ID is required for update'')), w)
      else
        (Inr (json_response 400 (error_body ''Invalid input: body must be a JSON object'')), w))"

section \<open>Delete\<close>

definition handle_delete_item :: "env \<Rightarrow> string \<Rightarrow> world \<Rightarrow> (exn + response) \<times> world" where
  "handle_delete_item e item_id w =
     (if item_id = [] then
        (Inr (json_response 400 (error_body ''Item ID is required for deletion'')), w)
      else
        (case get_item e item_id w of
           (Inl x, w1) \<Rightarrow>
             (if x = ClientError
              then (Inr (json_response 500 (error_body ''Failed to delete item'')), w1)
              else (Inl x, w1))
         | (Inr None, w1) \<Rightarrow> (Inr (json_response 404 (error_body ''Item not found'')), w1)
         | (Inr (Some existing), w1) \<Rightarrow>
             (case delete_item e item_id w1 of
                (Inl x, w2) \<Rightarrow>
                  (if x = ClientError
                   then (Inr (json_response 500 (error_body ''Failed to delete item'')), w2)
                   else (Inl x, w2))
              | (Inr u, w2) \<Rightarrow>
                  (Inr (json_response 200
                          (JObj [(''itemId'', JStr item_id),
                                 (''message'', JStr ''Item deleted successfully'')])),
                   w2))))"

section \<open>The dispatcher\<close>

text \<open>The fields of the event the dispatcher reads. \<^verbatim>\<open>pathParameters\<close> is the
  dictionary after \<^verbatim>\<open>event.get('pathParameters', {}) or {}\<close>, so a missing or null
  entry is the empty list; \<open>ev_body\<close> is \<^verbatim>\<open>event.get('body', '')\<close>, a string (\<open>JStr\<close>)
  when the request comes through the gateway. Calls of \<^verbatim>\<open>logger\<close> are not modelled.\<close>

record event =
  httpMethod :: string
  path :: string
  pathParameters :: "(string \<times> string) list"
  ev_body :: json

text \<open>\<^verbatim>\<open>path.split('/')\<close>: the segments between the separators, never an empty list.\<close>

fun split :: "char \<Rightarrow> string \<Rightarrow> string list" where
  "split c [] = [[]]"
| "split c (x # xs) =
     (if x = c then [] # split c xs
      else (case split c xs of
              [] \<Rightarrow> [[x]]
            | seg # segs \<Rightarrow> (x # seg) # segs))"

text \<open>\<^verbatim>\<open>path_parameters.get('id') or path.split('/')[-1]\<close>\<close>

definition path_item_id :: "(string \<times> string) list \<Rightarrow> string \<Rightarrow> string" where
  "path_item_id path_parameters p =
     (case map_of path_parameters ''id'' of
        Some i \<Rightarrow> if i \<noteq> [] then i else last (split CHR ''/'' p)
      | None \<Rightarrow> last (split CHR ''/'' p))"

text \<open>\<^verbatim>\<open>if body and isinstance(body, str)\<close>: a non-empty string is parsed, and kept as it
  is when the parse raises \<^verbatim>\<open>JSONDecodeError\<close>, the only exception caught there. Anything
  else \<^verbatim>\<open>json.loads\<close> raises is raised by this step.\<close>

definition parse_body :: "env \<Rightarrow> json \<Rightarrow> exn + json" where
  "parse_body e b =
     (case b of
        JStr s \<Rightarrow>
          (if s \<noteq> [] then
             (case loads e s of
                Inr v \<Rightarrow> Inr v
              | Inl x \<Rightarrow> (if x = JSONDecodeError then Inr b else Inl x))
           else Inr b)
      | _ \<Rightarrow> Inr b)"

text \<open>The body is parsed before the \<^verbatim>\<open>try\<close> of the dispatcher, so an exception of that
  step leaves \<^verbatim>\<open>handler\<close>; every exception raised inside the \<^verbatim>\<open>try\<close> becomes the 500
  response.\<close>

definition handler :: "env \<Rightarrow> event \<Rightarrow> world \<Rightarrow> (exn + response) \<times> world" where
  "handler e ev w =
     (let http_method = httpMethod ev;
          p = path ev;
          path_parameters = pathParameters ev
      in case parse_body e (ev_body ev) of
           Inl x \<Rightarrow> (Inl x, w)
         | Inr b \<Rightarrow>
             (case (if http_method = ''POST'' \<and> suffix ''/items'' p then
                      handle_create_item e b w
                    else if http_method = ''GET'' \<and> sublist ''/items/'' p then
                      handle_get_item e (path_item_id path_parameters p) w
                    else if http_method = ''PUT'' \<and> sublist ''/items/'' p then
                      handle_update_item e (path_item_id path_parameters p) b w
                    else if http_method = ''DELETE'' \<and> sublist ''/items/'' p then
                      handle_delete_item e (path_item_id path_parameters p) w
                    else (Inr (json_response 404 (error_body ''Not found'')), w)) of
                (Inr resp, w1) \<Rightarrow>
                  (Inr resp,
                   publish_custom_metrics e (function_name e) ''SuccessfulInvocations'' 1 w1)
              | (Inl x, w1) \<Rightarrow>
                  (Inr (json_response 500 (error_body ''Internal server error'')),
                   publish_custom_metrics e (function_name e) ''InvocationErrors'' 1 w1)))"

section \<open>Concrete inputs\<close>

text \<open>A body of 100000 opening brackets, nested deeper than the recursion limit of the
  interpreter: \<^verbatim>\<open>json.loads\<close> raises \<^verbatim>\<open>RecursionError\<close> on it.\<close>

definition deep_body :: string where
  "deep_body = replicate 100000 CHR ''[''"

text \<open>A stand-in for \<^verbatim>\<open>json.loads\<close> that agrees with it on the two strings parsed in
  this theory: \<open>deep_body\<close>, and \<^verbatim>\<open>not json\<close>, on which it raises
  \<^verbatim>\<open>JSONDecodeError\<close>.\<close>

definition demo_loads :: "string \<Rightarrow> exn + json" where
  "demo_loads s = (if s = deep_body then Inl RecursionError else Inl JSONDecodeError)"

text \<open>An environment in which every collaborator succeeds, and a world with an empty
  table, used to run the handlers on concrete requests.\<close>

definition demo_env :: env where
  "demo_env =
     \<lparr>uuid4 = ''123e4567-e89b-42d3-a456-426614174000'',
      time_now = 1700000000,
      get_fault = None, put_fault = None, update_fault = None, delete_fault = None,
      cloudwatch_fault = False,
      processing_time = 10,
      function_name = ''items-api'',
      loads = demo_loads\<rparr>"

definition empty_world :: world where
  "empty_world = \<lparr>table = Map.empty, calls = [], metrics = []\<rparr>"

text \<open>A world whose table holds one item, stored under the key \<^verbatim>\<open>"42"\<close>.\<close>

definition demo_item :: dict where
  "demo_item =
     [(''itemId'', JStr ''42''), (''name'', JStr ''A''), (''description'', JStr []),
      (''createdAt'', JInt 1600000000), (''updatedAt'', JInt 1600000000)]"

definition demo_world :: world where
  "demo_world = \<lparr>table = [JStr ''42'' \<mapsto> demo_item], calls = [], metrics = []\<rparr>"

section \<open>The copy-through loop of create\<close>

lemma copy_through_absent:
  "k \<notin> fst ` set kvs \<Longrightarrow>
   map_of (fold copy_field kvs init) k = map_of init k"
  by (induction kvs arbitrary: init) (auto simp: update_conv')

lemma copy_through_excluded:
  "k \<in> {''name'', ''description''} \<Longrightarrow>
   map_of (fold copy_field kvs init) k = map_of init k"
  by (induction kvs arbitrary: init) (auto simp: update_conv')

lemma copy_through_present:
  "distinct (map fst kvs) \<Longrightarrow> (k, v) \<in> set kvs \<Longrightarrow> k \<notin> {''name'', ''description''} \<Longrightarrow>
   map_of (fold copy_field kvs init) k = Some v"
proof (induction kvs arbitrary: init)
  case Nil
  then show ?case by simp
next
  case (Cons p kvs)
  show ?case
  proof (cases "p = (k, v)")
    case True
    with Cons.prems have "k \<notin> fst ` set kvs" by auto
    with True Cons.prems(3) show ?thesis
      by (simp add: copy_through_absent update_conv')
  next
    case False
    with Cons.prems have "(k, v) \<in> set kvs" "distinct (map fst kvs)" by auto
    with Cons.IH Cons.prems(3) show ?thesis by simp
  qed
qed

lemma copy_through_defined:
  "map_of init k \<noteq> None \<Longrightarrow>
   map_of (fold copy_field kvs init) k \<noteq> None"
  by (induction kvs arbitrary: init) (auto simp: update_conv')

lemma new_item_has_key: "map_of (new_item item_id ts name kvs) ''itemId'' \<noteq> None"
  unfolding new_item_def by (rule copy_through_defined) simp

lemma put_item_ok:
  "put_fault e = None \<Longrightarrow> map_of item ''itemId'' = Some k \<Longrightarrow>
   put_item e item w = (Inr (), w\<lparr>calls := calls w @ [PutItem item], table := (table w)(k \<mapsto> item)\<rparr>)"
  by (simp add: put_item_def)

lemma emit_processing_time_raises: "emit_processing_time e w = (Inl NameError, w)"
  by (simp add: emit_processing_time_def handle_create_item_names_def)

section \<open>Create: the success path\<close>

lemma create_ok:
  assumes "map_of kvs ''name'' = Some name" and "put_fault e = None"
    and "map_of (new_item (uuid4 e) (time_now e) name kvs) ''itemId'' = Some k"
  shows "handle_create_item e (JObj kvs) w =
           (Inr (json_response 201
                   (JObj [(''itemId'', JStr (uuid4 e)), (''message'', JStr ''Item created successfully'')])),
            w\<lparr>calls := calls w @ [PutItem (new_item (uuid4 e) (time_now e) name kvs)],
              table := (table w)(k \<mapsto> new_item (uuid4 e) (time_now e) name kvs)\<rparr>)"
proof -
  from assms(1) have ne: "kvs \<noteq> []" by auto
  from assms(1) have "''name'' \<in> set (map fst kvs)"
    by (metis map_of_eq_None_iff option.distinct(1) set_map)
  then have f: "find (\<lambda>field. field \<notin> set (map fst kvs)) required_fields = None"
    by (simp add: required_fields_def)
  show ?thesis
    using ne f assms(1) put_item_ok [OF assms(2) assms(3)]
    by (simp add: emit_processing_time_raises swallow_def Let_def)
qed

text \<open>
  Claim C1. For a body that is a dictionary with the key \<^verbatim>\<open>name\<close>, when the put
  succeeds, \<^verbatim>\<open>handle_create_item\<close> returns 201 with the generated identifier and the
  message \<^verbatim>\<open>Item created successfully\<close>. Whatever the emission of the processing-time
  metric raises is swallowed; what it raises is \<^verbatim>\<open>NameError\<close>, since the name
  \<^verbatim>\<open>context\<close> is not bound in that function. So no metric is published by the function,
  and the dispatcher hands the same 201 response to the caller.
\<close>

theorem create_success_201:
  assumes "''name'' \<in> fst ` set kvs" and "put_fault e = None"
  shows "fst (handle_create_item e (JObj kvs) w) =
           Inr (json_response 201
                  (JObj [(''itemId'', JStr (uuid4 e)), (''message'', JStr ''Item created successfully'')]))
         \<and> swallow (Inl x, w1) = w1
         \<and> swallow (emit_processing_time e w1) = w1
         \<and> fst (emit_processing_time e w1) = Inl NameError
         \<and> metrics (snd (handle_create_item e (JObj kvs) w)) = metrics w
         \<and> (httpMethod ev = ''POST'' \<and> suffix ''/items'' (path ev) \<and> parse_body e (ev_body ev) = Inr (JObj kvs)
              \<longrightarrow> fst (handler e ev w) =
                   Inr (json_response 201
                     (JObj [(''itemId'', JStr (uuid4 e)), (''message'', JStr ''Item created successfully'')])))"
proof -
  from assms(1) obtain name where n: "map_of kvs ''name'' = Some name"
    by (metis map_of_eq_None_iff not_None_eq)
  obtain k where k: "map_of (new_item (uuid4 e) (time_now e) name kvs) ''itemId'' = Some k"
    using new_item_has_key by blast
  note c = create_ok [OF n assms(2) k]
  show ?thesis
    by (simp add: c emit_processing_time_raises swallow_def handler_def del: handle_create_item.simps)
qed

theorem create_success_201_witness:
  "''name'' \<in> fst ` set [(''name'', JStr ''Widget'')] \<and> put_fault demo_env = None
   \<and> fst (handle_create_item demo_env (JObj [(''name'', JStr ''Widget'')]) empty_world) =
       Inr (json_response 201
              (JObj [(''itemId'', JStr ''123e4567-e89b-42d3-a456-426614174000''),
                     (''message'', JStr ''Item created successfully'')]))
   \<and> fst (handler demo_env
            \<lparr>httpMethod = ''POST'', path = ''/items'', pathParameters = [],
             ev_body = JObj [(''name'', JStr ''Widget'')]\<rparr> empty_world) =
       Inr (json_response 201
         (JObj [(''itemId'', JStr ''123e4567-e89b-42d3-a456-426614174000''),
                (''message'', JStr ''Item created successfully'')]))"
proof -
  have h1: "''name'' \<in> fst ` set [(''name'', JStr ''Widget'')]" by simp
  have h2: "put_fault demo_env = None" by (simp add: demo_env_def)
  have u: "uuid4 demo_env = ''123e4567-e89b-42d3-a456-426614174000''" by (simp add: demo_env_def)
  show ?thesis
    using h1 h2
      create_success_201 [OF h1 h2, of empty_world NameError empty_world
        "\<lparr>httpMethod = ''POST'', path = ''/items'', pathParameters = [],
          ev_body = JObj [(''name'', JStr ''Widget'')]\<rparr>"]
    by (simp add: u parse_body_def suffix_to_prefix)
qed

section \<open>Storage calls that succeed\<close>

lemma get_item_ok:
  "get_fault e = None \<Longrightarrow>
   get_item e key w = (Inr (table w (JStr key)), w\<lparr>calls := calls w @ [GetItem key]\<rparr>)"
  by (simp add: get_item_def)

lemma delete_item_ok:
  "delete_fault e = None \<Longrightarrow>
   delete_item e key w =
     (Inr (), w\<lparr>calls := calls w @ [DeleteItem key], table := (table w)(JStr key := None)\<rparr>)"
  by (simp add: delete_item_def)

section \<open>Create: validation\<close>

text \<open>
  Claim C7, amended. A create whose body is a dictionary without the key \<^verbatim>\<open>name\<close>
  leaves the world as it was (no storage call is made). When the dictionary is not empty
  the response is 400 with \<^verbatim>\<open>{"error": "Missing required field: name"}\<close>; the empty
  dictionary is rejected one check earlier, with 400 and
  \<^verbatim>\<open>{"error": "Invalid input: body must be a JSON object"}\<close>.
\<close>

theorem create_without_name_400:
  assumes "''name'' \<notin> fst ` set kvs"
  shows "snd (handle_create_item e (JObj kvs) w) = w
         \<and> (kvs \<noteq> [] \<longrightarrow>
              fst (handle_create_item e (JObj kvs) w) =
                Inr (json_response 400 (error_body ''Missing required field: name'')))
         \<and> (kvs = [] \<longrightarrow>
              fst (handle_create_item e (JObj kvs) w) =
                Inr (json_response 400 (error_body ''Invalid input: body must be a JSON object'')))"
proof -
  from assms have "find (\<lambda>field. field \<notin> set (map fst kvs)) required_fields = Some ''name''"
    by (simp add: required_fields_def)
  then show ?thesis by simp
qed

theorem create_without_name_400_witness:
  "''name'' \<notin> fst ` set [(''description'', JStr ''no name'')]
   \<and> handle_create_item demo_env (JObj [(''description'', JStr ''no name'')]) empty_world =
       (Inr (json_response 400 (error_body ''Missing required field: name'')), empty_world)"
proof -
  have h: "''name'' \<notin> fst ` set [(''description'', JStr ''no name'')]" by simp
  show ?thesis
    using h create_without_name_400 [OF h, of demo_env empty_world]
    by (simp add: prod_eq_iff del: handle_create_item.simps)
qed

text \<open>
  Claim C7 as stated fails at the empty dictionary: it has no key \<^verbatim>\<open>name\<close>, and the
  response body is the invalid-input message, not the missing-field message.
\<close>

theorem create_empty_dict_counterexample:
  "''name'' \<notin> fst ` set ([] :: dict)
   \<and> fst (handle_create_item demo_env (JObj []) empty_world) =
       Inr (json_response 400 (error_body ''Invalid input: body must be a JSON object''))
   \<and> fst (handle_create_item demo_env (JObj []) empty_world) \<noteq>
       Inr (json_response 400 (error_body ''Missing required field: name''))"
  by (simp add: json_response_def error_body_def)

section \<open>The dispatcher: unmatched routes\<close>





section \<open>Update of an item that is not there\<close>

text \<open>
  Claim C6, amended. An update with a non-empty identifier and a non-empty dictionary as
  body, whose existence check succeeds and finds nothing under the key, returns 404 with
  \<^verbatim>\<open>{"error": "Item not found"}\<close>. The read is the only storage call, and the table is
  unchanged: the item is not created.
\<close>

theorem update_missing_item_404:
  assumes "item_id \<noteq> []" and "kvs \<noteq> []"
    and "get_fault e = None" and "table w (JStr item_id) = None"
  shows "handle_update_item e item_id (JObj kvs) w =
           (Inr (json_response 404 (error_body ''Item not found'')),
            w\<lparr>calls := calls w @ [GetItem item_id]\<rparr>)
         \<and> table (snd (handle_update_item e item_id (JObj kvs) w)) = table w"
  using assms by (simp add: get_item_ok)

theorem update_missing_item_404_witness:
  "''42'' \<noteq> [] \<and> [(''description'', JStr ''B'')] \<noteq> [] \<and> get_fault demo_env = None
   \<and> table empty_world (JStr ''42'') = None
   \<and> fst (handle_update_item demo_env ''42'' (JObj [(''description'', JStr ''B'')]) empty_world) =
       Inr (json_response 404 (error_body ''Item not found''))
   \<and> table (snd (handle_update_item demo_env ''42'' (JObj [(''description'', JStr ''B'')]) empty_world))
       (JStr ''42'') = None"
proof -
  have h1: "''42'' \<noteq> []" and h2: "[(''description'', JStr ''B'')] \<noteq> []" by simp_all
  have h3: "get_fault demo_env = None" by (simp add: demo_env_def)
  have h4: "table empty_world (JStr ''42'') = None" by (simp add: empty_world_def)
  show ?thesis
    using h3 h4 update_missing_item_404 [OF h1 h2 h3 h4]
    by (simp del: handle_update_item.simps)
qed

text \<open>
  Claim C6 as stated fails at the empty dictionary: the body check rejects it with 400
  before the existence check is reached.
\<close>

theorem update_empty_dict_counterexample:
  "''42'' \<noteq> [] \<and> get_fault demo_env = None \<and> table empty_world (JStr ''42'') = None
   \<and> fst (handle_update_item demo_env ''42'' (JObj []) empty_world) =
       Inr (json_response 400 (error_body ''Invalid input: body must be a JSON object''))
   \<and> fst (handle_update_item demo_env ''42'' (JObj []) empty_world) \<noteq>
       Inr (json_response 404 (error_body ''Item not found''))"
  by (simp add: json_response_def error_body_def demo_env_def empty_world_def)

section \<open>Delete\<close>

text \<open>
  Claim C8, amended. With a non-empty identifier and storage calls that succeed: when an
  item is stored under the identifier, delete returns 200 with
  \<^verbatim>\<open>{"itemId": <id>, "message": "Item deleted successfully"}\<close>, removes exactly that key,
  and a get of the same identifier then returns 404; when nothing is stored under it,
  delete returns 404 with \<^verbatim>\<open>{"error": "Item not found"}\<close> and the table is unchanged.
\<close>

theorem delete_existing_or_missing:
  assumes "item_id \<noteq> []" and "get_fault e = None" and "delete_fault e = None"
    and "get_fault e' = None"
  shows "(table w (JStr item_id) \<noteq> None \<longrightarrow>
            fst (handle_delete_item e item_id w) =
              Inr (json_response 200
                     (JObj [(''itemId'', JStr item_id), (''message'', JStr ''Item deleted successfully'')]))
          \<and> table (snd (handle_delete_item e item_id w)) = (table w)(JStr item_id := None)
          \<and> fst (handle_get_item e' item_id (snd (handle_delete_item e item_id w))) =
              Inr (json_response 404 (error_body ''Item not found'')))
       \<and> (table w (JStr item_id) = None \<longrightarrow>
            fst (handle_delete_item e item_id w) = Inr (json_response 404 (error_body ''Item not found''))
          \<and> table (snd (handle_delete_item e item_id w)) = table w)"
  using assms
  by (auto simp add: handle_delete_item_def handle_get_item_def get_item_ok delete_item_ok)

theorem delete_existing_or_missing_witness:
  "''42'' \<noteq> [] \<and> get_fault demo_env = None \<and> delete_fault demo_env = None
   \<and> table demo_world (JStr ''42'') \<noteq> None
   \<and> fst (handle_delete_item demo_env ''42'' demo_world) =
        Inr (json_response 200
               (JObj [(''itemId'', JStr ''42''), (''message'', JStr ''Item deleted successfully'')]))
   \<and> fst (handle_get_item demo_env ''42'' (snd (handle_delete_item demo_env ''42'' demo_world))) =
        Inr (json_response 404 (error_body ''Item not found''))
   \<and> table empty_world (JStr ''42'') = None
   \<and> fst (handle_delete_item demo_env ''42'' empty_world) =
        Inr (json_response 404 (error_body ''Item not found''))"
proof -
  have h1: "''42'' \<noteq> []" by simp
  have h2: "get_fault demo_env = None" and h3: "delete_fault demo_env = None"
    by (simp_all add: demo_env_def)
  have p: "table demo_world (JStr ''42'') \<noteq> None" by (simp add: demo_world_def)
  have a: "table empty_world (JStr ''42'') = None" by (simp add: empty_world_def)
  show ?thesis
    using h2 h3 p a
      delete_existing_or_missing [OF h1 h2 h3 h2, of demo_world]
      delete_existing_or_missing [OF h1 h2 h3 h2, of empty_world]
    by simp
qed

text \<open>
  Claim C8 as stated fails at the empty identifier, which is not in storage and gets 400,
  not 404; and an existing identifier gets 500, with the item still stored, when the
  delete call of the backend fails.
\<close>

theorem delete_empty_id_counterexample:
  "table empty_world (JStr []) = None
   \<and> fst (handle_delete_item demo_env [] empty_world) =
        Inr (json_response 400 (error_body ''Item ID is required for deletion''))
   \<and> fst (handle_delete_item demo_env [] empty_world) \<noteq>
        Inr (json_response 404 (error_body ''Item not found''))
   \<and> table demo_world (JStr ''42'') = Some demo_item
   \<and> fst (handle_delete_item (demo_env\<lparr>delete_fault := Some ClientError\<rparr>) ''42'' demo_world) =
        Inr (json_response 500 (error_body ''Failed to delete item''))
   \<and> table (snd (handle_delete_item (demo_env\<lparr>delete_fault := Some ClientError\<rparr>) ''42'' demo_world))
        (JStr ''42'') = Some demo_item"
  by (simp add: handle_delete_item_def get_item_def delete_item_def json_response_def error_body_def
      demo_env_def empty_world_def demo_world_def)

section \<open>Create: reserved keys in the body\<close>

text \<open>
  Claim C3. When the body of a create is a dictionary with the key \<^verbatim>\<open>name\<close> and with one
  of \<^verbatim>\<open>itemId\<close>, \<^verbatim>\<open>createdAt\<close>, \<^verbatim>\<open>updatedAt\<close>, the item sent to storage carries the
  caller's value under that key, because the copy-through loop skips only \<^verbatim>\<open>name\<close> and
  \<^verbatim>\<open>description\<close>. The 201 response still carries the generated identifier, so with a
  caller-supplied \<^verbatim>\<open>itemId\<close> the item is stored under the caller's key, and nothing is
  stored under the identifier returned when the two differ.
\<close>

theorem create_reserved_key_overwritten:
  assumes "distinct (map fst kvs)" and "map_of kvs ''name'' = Some name"
    and "(k, v) \<in> set kvs" and "k \<in> {''itemId'', ''createdAt'', ''updatedAt''}"
    and "put_fault e = None"
  shows "map_of (new_item (uuid4 e) (time_now e) name kvs) k = Some v
       \<and> calls (snd (handle_create_item e (JObj kvs) w)) =
           calls w @ [PutItem (new_item (uuid4 e) (time_now e) name kvs)]
       \<and> fst (handle_create_item e (JObj kvs) w) =
           Inr (json_response 201
                  (JObj [(''itemId'', JStr (uuid4 e)), (''message'', JStr ''Item created successfully'')]))
       \<and> (k = ''itemId'' \<longrightarrow>
            table (snd (handle_create_item e (JObj kvs) w)) v =
              Some (new_item (uuid4 e) (time_now e) name kvs)
          \<and> (v \<noteq> JStr (uuid4 e) \<longrightarrow>
               table (snd (handle_create_item e (JObj kvs) w)) (JStr (uuid4 e)) =
                 table w (JStr (uuid4 e))))"
proof -
  from assms(4) have nk: "k \<notin> {''name'', ''description''}" by auto
  have sent: "map_of (new_item (uuid4 e) (time_now e) name kvs) k = Some v"
    unfolding new_item_def by (rule copy_through_present [OF assms(1) assms(3) nk])
  obtain key where key: "map_of (new_item (uuid4 e) (time_now e) name kvs) ''itemId'' = Some key"
    using new_item_has_key by blast
  note c = create_ok [OF assms(2) assms(5) key]
  have "k = ''itemId'' \<Longrightarrow> key = v" using sent key by simp
  then show ?thesis
    by (auto simp add: c sent simp del: handle_create_item.simps)
qed

theorem create_reserved_key_overwritten_witness:
  "distinct (map fst [(''name'', JStr ''A''), (''itemId'', JStr ''x'')])
   \<and> map_of [(''name'', JStr ''A''), (''itemId'', JStr ''x'')] ''name'' = Some (JStr ''A'')
   \<and> (''itemId'', JStr ''x'') \<in> set [(''name'', JStr ''A''), (''itemId'', JStr ''x'')]
   \<and> put_fault demo_env = None
   \<and> fst (handle_create_item demo_env (JObj [(''name'', JStr ''A''), (''itemId'', JStr ''x'')]) empty_world) =
        Inr (json_response 201
               (JObj [(''itemId'', JStr ''123e4567-e89b-42d3-a456-426614174000''),
                      (''message'', JStr ''Item created successfully'')]))
   \<and> map_of (the (table (snd (handle_create_item demo_env
                 (JObj [(''name'', JStr ''A''), (''itemId'', JStr ''x'')]) empty_world)) (JStr ''x'')))
        ''itemId'' = Some (JStr ''x'')
   \<and> table (snd (handle_create_item demo_env
                 (JObj [(''name'', JStr ''A''), (''itemId'', JStr ''x'')]) empty_world))
        (JStr ''123e4567-e89b-42d3-a456-426614174000'') = None"
proof -
  let ?kvs = "[(''name'', JStr ''A''), (''itemId'', JStr ''x'')]"
  have h1: "distinct (map fst ?kvs)" by simp
  have h2: "map_of ?kvs ''name'' = Some (JStr ''A'')" by simp
  have h3: "(''itemId'', JStr ''x'') \<in> set ?kvs" by simp
  have h4: "''itemId'' \<in> {''itemId'', ''createdAt'', ''updatedAt''}" by simp
  have h5: "put_fault demo_env = None" by (simp add: demo_env_def)
  have u: "uuid4 demo_env = ''123e4567-e89b-42d3-a456-426614174000''" by (simp add: demo_env_def)
  have t: "table empty_world (JStr ''123e4567-e89b-42d3-a456-426614174000'') = None"
    by (simp add: empty_world_def)
  show ?thesis
    using h1 h2 h3 h5 create_reserved_key_overwritten [OF h1 h2 h3 h4 h5, of empty_world]
    by (simp add: u t del: handle_create_item.simps)
qed

section \<open>Update: the merge\<close>

lemma update_request_clauses:
  "fst (fold add_field kvs (ue, ev)) =
     ue @ map (\<lambda>kv. (fst kv, '':'' @ fst kv))
            (filter (\<lambda>kv. fst kv \<notin> {''itemId'', ''createdAt''}) kvs)"
  by (induction kvs arbitrary: ue ev) auto

lemma update_request_vals_other:
  "ph \<notin> (\<lambda>kv. '':'' @ fst kv) ` set kvs \<Longrightarrow>
   map_of (snd (fold add_field kvs (ue, ev))) ph = map_of ev ph"
  by (induction kvs arbitrary: ue ev) (auto simp: update_conv')

lemma update_request_vals_set:
  "distinct (map fst kvs) \<Longrightarrow> (k, v) \<in> set kvs \<Longrightarrow> k \<notin> {''itemId'', ''createdAt''} \<Longrightarrow>
   map_of (snd (fold add_field kvs (ue, ev))) ('':'' @ k) = Some v"
proof (induction kvs arbitrary: ue ev)
  case Nil
  then show ?case by simp
next
  case (Cons p kvs)
  show ?case
  proof (cases "p = (k, v)")
    case True
    from Cons.prems(1) True have "k \<notin> fst ` set kvs" by auto
    then have "'':'' @ k \<notin> (\<lambda>kv. '':'' @ fst kv) ` set kvs" by auto
    with True Cons.prems(3) show ?thesis
      by (simp add: update_request_vals_other update_conv')
  next
    case False
    with Cons.prems have "(k, v) \<in> set kvs" "distinct (map fst kvs)" by auto
    from Cons.IH [OF this(2) this(1) Cons.prems(3)] show ?thesis
      by (cases p) simp
  qed
qed

lemma apply_set_other:
  "a \<notin> fst ` set cs \<Longrightarrow> map_of (apply_set cs vals it) a = map_of it a"
  unfolding apply_set_def
  by (induction cs arbitrary: it) (auto simp: update_conv' split: option.splits)

lemma apply_set_clause:
  "distinct (map fst cs) \<Longrightarrow> (a, ph) \<in> set cs \<Longrightarrow> map_of vals ph = Some v \<Longrightarrow>
   map_of (apply_set cs vals it) a = Some v"
proof (induction cs arbitrary: it)
  case Nil
  then show ?case by simp
next
  case (Cons c cs)
  show ?case
  proof (cases "c = (a, ph)")
    case True
    from Cons.prems(1) True have "a \<notin> fst ` set cs" by auto
    from apply_set_other [OF this] True Cons.prems(3) show ?thesis
      by (simp add: apply_set_def update_conv')
  next
    case False
    with Cons.prems have "(a, ph) \<in> set cs" "distinct (map fst cs)" by auto
    from Cons.IH [OF this(2) this(1) Cons.prems(3)] show ?thesis
      by (simp add: apply_set_def)
  qed
qed

lemma update_item_ok:
  "update_fault e = None \<Longrightarrow> table w (JStr key) = Some old \<Longrightarrow>
   update_item e key cs vals w =
     (Inr (), w\<lparr>calls := calls w @ [UpdateItem key cs vals],
               table := (table w)(JStr key \<mapsto> apply_set cs vals old)\<rparr>)"
  by (simp add: update_item_def)

lemma update_ok:
  assumes "item_id \<noteq> []" and "kvs \<noteq> []"
    and "get_fault e = None" and "update_fault e = None"
    and "table w (JStr item_id) = Some old"
  shows "handle_update_item e item_id (JObj kvs) w =
           (Inr (json_response 200
                   (JObj [(''itemId'', JStr item_id), (''message'', JStr ''Item updated successfully'')])),
            w\<lparr>calls := calls w @ [GetItem item_id,
                   UpdateItem item_id (fst (update_request (time_now e) kvs))
                     (snd (update_request (time_now e) kvs))],
              table := (table w)(JStr item_id \<mapsto>
                   apply_set (fst (update_request (time_now e) kvs))
                     (snd (update_request (time_now e) kvs)) old)\<rparr>)"
  using assms by (simp add: get_item_ok update_item_ok split: prod.splits)

lemma update_request_shape:
  assumes "distinct (map fst kvs)" and "''updatedAt'' \<notin> fst ` set kvs"
    and "''updated_at'' \<notin> fst ` set kvs"
  shows "distinct (map fst (fst (update_request ts kvs)))"
    and "(''updatedAt'', '':updated_at'') \<in> set (fst (update_request ts kvs))"
    and "map_of (snd (update_request ts kvs)) '':updated_at'' = Some (JInt ts)"
    and "fst ` set (fst (update_request ts kvs)) =
           insert ''updatedAt'' (fst ` set kvs - {''itemId'', ''createdAt''})"
proof -
  let ?keep = "filter (\<lambda>kv. fst kv \<notin> {''itemId'', ''createdAt''}) kvs"
  have cl: "fst (update_request ts kvs) =
              (''updatedAt'', '':updated_at'') # map (\<lambda>kv. (fst kv, '':'' @ fst kv)) ?keep"
    by (simp add: update_request_def update_request_clauses)
  have m: "map fst (map (\<lambda>kv. (fst kv, '':'' @ fst kv)) ?keep) = map fst ?keep"
    by simp
  from assms(1) have "distinct (map fst ?keep)" by (rule distinct_map_filter)
  moreover from assms(2) have "''updatedAt'' \<notin> set (map fst ?keep)" by auto
  ultimately show "distinct (map fst (fst (update_request ts kvs)))"
    unfolding cl by (simp only: list.map fst_conv distinct.simps m) simp
  show "(''updatedAt'', '':updated_at'') \<in> set (fst (update_request ts kvs))"
    unfolding cl by simp
  from assms(3) have "'':updated_at'' \<notin> (\<lambda>kv. '':'' @ fst kv) ` set kvs" by auto
  then show "map_of (snd (update_request ts kvs)) '':updated_at'' = Some (JInt ts)"
    by (simp add: update_request_def update_request_vals_other)
  show "fst ` set (fst (update_request ts kvs)) =
          insert ''updatedAt'' (fst ` set kvs - {''itemId'', ''createdAt''})"
    unfolding cl by force
qed

text \<open>
  Claim C5, amended. For an update of an existing item with a non-empty identifier and a
  non-empty dictionary as body that has neither the key \<^verbatim>\<open>updatedAt\<close> nor the key
  \<^verbatim>\<open>updated_at\<close>, when the storage calls succeed: the response is 200, only the item under
  the identifier changes, its \<^verbatim>\<open>itemId\<close> and \<^verbatim>\<open>createdAt\<close> keep their stored values
  whatever the body says, every attribute other than \<^verbatim>\<open>updatedAt\<close> that the body does not
  name is unchanged, every body key other than \<^verbatim>\<open>itemId\<close> and \<^verbatim>\<open>createdAt\<close> is set to
  the body's value, and \<^verbatim>\<open>updatedAt\<close> is set to the current epoch timestamp.
\<close>

theorem update_partial_merge:
  fixes e :: env and w :: world and kvs :: dict and item_id :: string and old :: dict
  defines "w' \<equiv> snd (handle_update_item e item_id (JObj kvs) w)"
  defines "new \<equiv> apply_set (fst (update_request (time_now e) kvs))
                    (snd (update_request (time_now e) kvs)) old"
  assumes id: "item_id \<noteq> []" and ne: "kvs \<noteq> []" and dist: "distinct (map fst kvs)"
    and no_stamp: "''updatedAt'' \<notin> fst ` set kvs" and no_ph: "''updated_at'' \<notin> fst ` set kvs"
    and get: "get_fault e = None" and upd: "update_fault e = None"
    and stored: "table w (JStr item_id) = Some old"
  shows "fst (handle_update_item e item_id (JObj kvs) w) =
           Inr (json_response 200
                  (JObj [(''itemId'', JStr item_id), (''message'', JStr ''Item updated successfully'')]))
       \<and> table w' = (table w)(JStr item_id \<mapsto> new)
       \<and> map_of new ''itemId'' = map_of old ''itemId''
       \<and> map_of new ''createdAt'' = map_of old ''createdAt''
       \<and> (\<forall>a. a \<notin> fst ` set kvs \<and> a \<noteq> ''updatedAt'' \<longrightarrow> map_of new a = map_of old a)
       \<and> (\<forall>k v. (k, v) \<in> set kvs \<and> k \<notin> {''itemId'', ''createdAt''} \<longrightarrow> map_of new k = Some v)
       \<and> map_of new ''updatedAt'' = Some (JInt (time_now e))"
proof -
  let ?ts = "time_now e"
  note shape = update_request_shape [OF dist no_stamp no_ph, of ?ts]
  note u = update_ok [OF id ne get upd stored]
  have frame: "map_of new a = map_of old a"
    if "a \<noteq> ''updatedAt''" and "a \<notin> fst ` set kvs - {''itemId'', ''createdAt''}" for a
    unfolding new_def using that by (intro apply_set_other) (simp add: shape(4))
  have body: "map_of new k = Some v"
    if "(k, v) \<in> set kvs" and "k \<notin> {''itemId'', ''createdAt''}" for k v
  proof -
    from that have "(k, '':'' @ k) \<in> set (fst (update_request ?ts kvs))"
      by (force simp add: update_request_def update_request_clauses)
    moreover have "map_of (snd (update_request ?ts kvs)) ('':'' @ k) = Some v"
      unfolding update_request_def by (rule update_request_vals_set [OF dist that])
    ultimately show ?thesis
      unfolding new_def by (intro apply_set_clause [OF shape(1)])
  qed
  have stamp: "map_of new ''updatedAt'' = Some (JInt ?ts)"
    unfolding new_def by (rule apply_set_clause [OF shape(1) shape(2) shape(3)])
  have "table w' = (table w)(JStr item_id \<mapsto> new)"
    unfolding w'_def new_def by (simp add: u del: handle_update_item.simps)
  moreover have "map_of new ''itemId'' = map_of old ''itemId''"
    and "map_of new ''createdAt'' = map_of old ''createdAt''"
    by (rule frame; simp)+
  ultimately show ?thesis
    using frame body stamp by (simp add: u del: handle_update_item.simps)
qed

theorem update_partial_merge_witness:
  "''42'' \<noteq> [] \<and> get_fault demo_env = None \<and> update_fault demo_env = None
   \<and> table demo_world (JStr ''42'') = Some demo_item
   \<and> fst (handle_update_item demo_env ''42''
            (JObj [(''description'', JStr ''B''), (''createdAt'', JInt 1), (''itemId'', JStr ''x'')])
            demo_world) =
        Inr (json_response 200
               (JObj [(''itemId'', JStr ''42''), (''message'', JStr ''Item updated successfully'')]))
   \<and> table (snd (handle_update_item demo_env ''42''
            (JObj [(''description'', JStr ''B''), (''createdAt'', JInt 1), (''itemId'', JStr ''x'')])
            demo_world)) (JStr ''42'') =
        Some [(''itemId'', JStr ''42''), (''name'', JStr ''A''), (''description'', JStr ''B''),
              (''createdAt'', JInt 1600000000), (''updatedAt'', JInt 1700000000)]"
proof -
  let ?kvs = "[(''description'', JStr ''B''), (''createdAt'', JInt 1), (''itemId'', JStr ''x'')]"
  have h1: "''42'' \<noteq> []" and h2: "?kvs \<noteq> []" and h3: "distinct (map fst ?kvs)"
    and h4: "''updatedAt'' \<notin> fst ` set ?kvs" and h5: "''updated_at'' \<notin> fst ` set ?kvs"
    by simp_all
  have h6: "get_fault demo_env = None" and h7: "update_fault demo_env = None"
    by (simp_all add: demo_env_def)
  have h8: "table demo_world (JStr ''42'') = Some demo_item" by (simp add: demo_world_def)
  have t: "time_now demo_env = 1700000000" by (simp add: demo_env_def)
  have n: "apply_set (fst (update_request 1700000000 ?kvs)) (snd (update_request 1700000000 ?kvs))
             demo_item =
           [(''itemId'', JStr ''42''), (''name'', JStr ''A''), (''description'', JStr ''B''),
            (''createdAt'', JInt 1600000000), (''updatedAt'', JInt 1700000000)]"
    by (simp add: update_request_def apply_set_def demo_item_def)
  show ?thesis
    using h6 h7 h8 update_partial_merge [OF h1 h2 h3 h4 h5 h6 h7 h8]
    by (simp add: t n del: handle_update_item.simps)
qed

text \<open>
  Claim C5 as stated fails twice. The empty dictionary is a dictionary, and the update is
  rejected with 400 and changes nothing, so \<^verbatim>\<open>updatedAt\<close> is not set. With the body
  \<^verbatim>\<open>{"updated_at": 0}\<close> the placeholder of the body key is \<^verbatim>\<open>:updated_at\<close>, the one the
  timestamp was bound to, and \<^verbatim>\<open>updatedAt\<close> is set to 0, not to the current timestamp.
\<close>

theorem update_merge_counterexample:
  "handle_update_item demo_env ''42'' (JObj []) demo_world =
     (Inr (json_response 400 (error_body ''Invalid input: body must be a JSON object'')), demo_world)
   \<and> map_of (the (table (snd (handle_update_item demo_env ''42'' (JObj [(''updated_at'', JInt 0)])
                             demo_world)) (JStr ''42''))) ''updatedAt'' = Some (JInt 0)
   \<and> JInt 0 \<noteq> JInt (time_now demo_env)"
  by (simp add: get_item_def update_item_def update_request_def apply_set_def
      demo_env_def demo_world_def demo_item_def)

section \<open>Create, then update, then get\<close>

text \<open>
  Claim C10, amended. Create with the body \<^verbatim>\<open>{"name": "A"}\<close>, then update of the
  identifier returned with the body \<^verbatim>\<open>{"description": "B"}\<close>, then get of that
  identifier, all storage calls succeeding: the get returns 200 with the item whose
  \<^verbatim>\<open>name\<close> is \<^verbatim>\<open>"A"\<close>, whose \<^verbatim>\<open>description\<close> is \<^verbatim>\<open>"B"\<close>, whose \<^verbatim>\<open>createdAt\<close> is the
  epoch second read by the create and whose \<^verbatim>\<open>updatedAt\<close> is the epoch second read by the
  update. So \<^verbatim>\<open>updatedAt\<close> is greater than \<^verbatim>\<open>createdAt\<close> exactly when the update reads a
  later second than the create.
\<close>

theorem create_update_get:
  assumes "uuid4 e1 \<noteq> []" and "put_fault e1 = None"
    and "get_fault e2 = None" and "update_fault e2 = None" and "get_fault e3 = None"
  shows "fst (handle_get_item e3 (uuid4 e1)
           (snd (handle_update_item e2 (uuid4 e1) (JObj [(''description'', JStr ''B'')])
              (snd (handle_create_item e1 (JObj [(''name'', JStr ''A'')]) w))))) =
         Inr (json_response 200
                (JObj [(''itemId'', JStr (uuid4 e1)), (''name'', JStr ''A''),
                       (''description'', JStr ''B''), (''createdAt'', JInt (time_now e1)),
                       (''updatedAt'', JInt (time_now e2))]))"
proof -
  let ?item = "[(''itemId'', JStr (uuid4 e1)), (''name'', JStr ''A''), (''description'', JStr []),
                (''createdAt'', JInt (time_now e1)), (''updatedAt'', JInt (time_now e1))]"
  have item: "new_item (uuid4 e1) (time_now e1) (JStr ''A'') [(''name'', JStr ''A'')] = ?item"
    by (simp add: new_item_def)
  have k: "map_of (new_item (uuid4 e1) (time_now e1) (JStr ''A'') [(''name'', JStr ''A'')]) ''itemId''
             = Some (JStr (uuid4 e1))"
    by (simp add: item)
  have n: "map_of [(''name'', JStr ''A'')] ''name'' = Some (JStr ''A'')" by simp
  note c = create_ok [OF n assms(2) k, of w]
  let ?w1 = "snd (handle_create_item e1 (JObj [(''name'', JStr ''A'')]) w)"
  have t1: "table ?w1 (JStr (uuid4 e1)) = Some ?item"
    by (simp add: c item del: handle_create_item.simps)
  have ne: "[(''description'', JStr ''B'')] \<noteq> []" by simp
  note u = update_ok [OF assms(1) ne assms(3) assms(4) t1]
  have m: "apply_set (fst (update_request (time_now e2) [(''description'', JStr ''B'')]))
             (snd (update_request (time_now e2) [(''description'', JStr ''B'')])) ?item =
           [(''itemId'', JStr (uuid4 e1)), (''name'', JStr ''A''), (''description'', JStr ''B''),
            (''createdAt'', JInt (time_now e1)), (''updatedAt'', JInt (time_now e2))]"
    by (simp add: update_request_def apply_set_def)
  show ?thesis
    using assms(1)
    by (simp add: u m handle_get_item_def get_item_ok [OF assms(5)]
        del: handle_create_item.simps handle_update_item.simps)
qed

theorem create_update_get_witness:
  "uuid4 demo_env \<noteq> [] \<and> put_fault demo_env = None \<and> get_fault demo_env = None
   \<and> update_fault demo_env = None
   \<and> fst (handle_get_item demo_env (uuid4 demo_env)
           (snd (handle_update_item (demo_env\<lparr>time_now := 1700000007\<rparr>) (uuid4 demo_env)
                   (JObj [(''description'', JStr ''B'')])
              (snd (handle_create_item demo_env (JObj [(''name'', JStr ''A'')]) empty_world))))) =
         Inr (json_response 200
                (JObj [(''itemId'', JStr ''123e4567-e89b-42d3-a456-426614174000''),
                       (''name'', JStr ''A''), (''description'', JStr ''B''),
                       (''createdAt'', JInt 1700000000), (''updatedAt'', JInt 1700000007)]))"
proof -
  have h1: "uuid4 demo_env \<noteq> []" and h2: "put_fault demo_env = None"
    and h3: "get_fault (demo_env\<lparr>time_now := 1700000007\<rparr>) = None"
    and h4: "update_fault (demo_env\<lparr>time_now := 1700000007\<rparr>) = None"
    and h5: "get_fault demo_env = None"
    by (simp_all add: demo_env_def)
  have v: "uuid4 demo_env = ''123e4567-e89b-42d3-a456-426614174000''"
    "time_now demo_env = 1700000000" "time_now (demo_env\<lparr>time_now := 1700000007\<rparr>) = 1700000007"
    "update_fault demo_env = None"
    by (simp_all add: demo_env_def)
  show ?thesis
    using h2 h5 create_update_get [OF h1 h2 h3 h4 h5, of empty_world]
    by (simp add: v del: handle_create_item.simps handle_update_item.simps)
qed

text \<open>
  Claim C10 as stated fails when the create and the update read the same epoch second:
  the item returned has \<^verbatim>\<open>updatedAt\<close> equal to \<^verbatim>\<open>createdAt\<close>, not greater.
\<close>

theorem create_update_same_second_counterexample:
  "fst (handle_get_item demo_env (uuid4 demo_env)
          (snd (handle_update_item demo_env (uuid4 demo_env) (JObj [(''description'', JStr ''B'')])
             (snd (handle_create_item demo_env (JObj [(''name'', JStr ''A'')]) empty_world))))) =
     Inr (json_response 200
            (JObj [(''itemId'', JStr ''123e4567-e89b-42d3-a456-426614174000''),
                   (''name'', JStr ''A''), (''description'', JStr ''B''),
                   (''createdAt'', JInt 1700000000), (''updatedAt'', JInt 1700000000)]))
   \<and> \<not> ((1700000000 :: int) < 1700000000)"
  by (simp add: handle_get_item_def get_item_def put_item_def update_item_def new_item_def
      update_request_def apply_set_def required_fields_def swallow_def emit_processing_time_def
      handle_create_item_names_def demo_env_def empty_world_def Let_def)

section \<open>Create: what a reserved key in the body does to the stored item\<close>

text \<open>When the body has none of the keys \<^verbatim>\<open>itemId\<close>, \<^verbatim>\<open>createdAt\<close>, \<^verbatim>\<open>updatedAt\<close>, the
  get of the identifier returned finds the item just created, with both timestamps equal
  and the name submitted.\<close>

lemma create_then_get_plain:
  assumes "map_of kvs ''name'' = Some name"
    and "fst ` set kvs \<inter> {''itemId'', ''createdAt'', ''updatedAt''} = {}"
    and "uuid4 e \<noteq> []" and "put_fault e = None" and "get_fault e' = None"
  shows "fst (handle_get_item e' (uuid4 e) (snd (handle_create_item e (JObj kvs) w))) =
           Inr (json_response 200 (JObj (new_item (uuid4 e) (time_now e) name kvs)))
       \<and> map_of (new_item (uuid4 e) (time_now e) name kvs) ''name'' = Some name
       \<and> map_of (new_item (uuid4 e) (time_now e) name kvs) ''createdAt'' = Some (JInt (time_now e))
       \<and> map_of (new_item (uuid4 e) (time_now e) name kvs) ''updatedAt'' = Some (JInt (time_now e))"
proof -
  let ?item = "new_item (uuid4 e) (time_now e) name kvs"
  from assms(2) have absent: "''itemId'' \<notin> fst ` set kvs" "''createdAt'' \<notin> fst ` set kvs"
    "''updatedAt'' \<notin> fst ` set kvs" by auto
  have k: "map_of ?item ''itemId'' = Some (JStr (uuid4 e))"
    and c: "map_of ?item ''createdAt'' = Some (JInt (time_now e))"
    and u: "map_of ?item ''updatedAt'' = Some (JInt (time_now e))"
    unfolding new_item_def by (simp_all add: copy_through_absent absent)
  have n: "map_of ?item ''name'' = Some name"
    unfolding new_item_def by (simp add: copy_through_excluded)
  note ok = create_ok [OF assms(1) assms(4) k, of w]
  show ?thesis
    using assms(3)
    by (simp add: ok c u n handle_get_item_def get_item_ok [OF assms(5)]
        del: handle_create_item.simps)
qed

text \<open>
  Claim C2 at the body \<^verbatim>\<open>{"name": "A", "itemId": "x"}\<close>, on an empty table: the create
  returns 201 with the generated identifier, the item is stored under \<^verbatim>\<open>"x"\<close>, and the
  get of the identifier returned answers 404. At the body \<^verbatim>\<open>{"name": "A", "createdAt": 1}\<close>
  the get of the identifier returned answers 200 with an item whose \<^verbatim>\<open>createdAt\<close> is 1 and
  whose \<^verbatim>\<open>updatedAt\<close> is the timestamp of the create.
\<close>

theorem create_with_item_id_then_get:
  "fst (handle_create_item demo_env (JObj [(''name'', JStr ''A''), (''itemId'', JStr ''x'')]) empty_world) =
     Inr (json_response 201
            (JObj [(''itemId'', JStr ''123e4567-e89b-42d3-a456-426614174000''),
                   (''message'', JStr ''Item created successfully'')]))
   \<and> fst (handle_get_item demo_env ''123e4567-e89b-42d3-a456-426614174000''
            (snd (handle_create_item demo_env
                    (JObj [(''name'', JStr ''A''), (''itemId'', JStr ''x'')]) empty_world))) =
     Inr (json_response 404 (error_body ''Item not found''))
   \<and> fst (handle_get_item demo_env ''123e4567-e89b-42d3-a456-426614174000''
            (snd (handle_create_item demo_env
                    (JObj [(''name'', JStr ''A''), (''createdAt'', JInt 1)]) empty_world))) =
     Inr (json_response 200
            (JObj [(''itemId'', JStr ''123e4567-e89b-42d3-a456-426614174000''),
                   (''name'', JStr ''A''), (''description'', JStr []),
                   (''createdAt'', JInt 1), (''updatedAt'', JInt 1700000000)]))"
  by (simp add: handle_get_item_def get_item_def put_item_def new_item_def
      required_fields_def swallow_def emit_processing_time_def
      handle_create_item_names_def demo_env_def empty_world_def Let_def)

section \<open>The order of the two timestamps\<close>

text \<open>
  Claim C4 at the create body \<^verbatim>\<open>{"name": "A", "createdAt": 10, "updatedAt": 5}\<close>, on
  an empty table: the item stored under the generated identifier has \<^verbatim>\<open>createdAt\<close> 10 and
  \<^verbatim>\<open>updatedAt\<close> 5. And the update of a stored item with the body \<^verbatim>\<open>{"updated_at": 0}\<close>
  leaves it with \<^verbatim>\<open>updatedAt\<close> 0, below its \<^verbatim>\<open>createdAt\<close>.
\<close>

theorem create_with_timestamps_stored:
  "table (snd (handle_create_item demo_env
                 (JObj [(''name'', JStr ''A''), (''createdAt'', JInt 10), (''updatedAt'', JInt 5)])
                 empty_world))
     (JStr ''123e4567-e89b-42d3-a456-426614174000'') =
     Some [(''itemId'', JStr ''123e4567-e89b-42d3-a456-426614174000''), (''name'', JStr ''A''),
           (''description'', JStr []), (''createdAt'', JInt 10), (''updatedAt'', JInt 5)]
   \<and> \<not> ((10 :: int) \<le> 5)
   \<and> table (snd (handle_update_item demo_env ''42'' (JObj [(''updated_at'', JInt 0)]) demo_world))
        (JStr ''42'') =
     Some [(''itemId'', JStr ''42''), (''name'', JStr ''A''), (''description'', JStr []),
           (''createdAt'', JInt 1600000000), (''updatedAt'', JInt 0), (''updated_at'', JInt 0)]
   \<and> \<not> ((1600000000 :: int) \<le> 0)"
  by (simp add: get_item_def put_item_def update_item_def new_item_def update_request_def
      apply_set_def required_fields_def swallow_def emit_processing_time_def
      handle_create_item_names_def demo_env_def empty_world_def demo_world_def demo_item_def Let_def)

end
